theory Spec2Isabelle
  imports Main "HOL-Library.Sublist"
begin

section \<open>Input definitions of dagster: a shallow embedding\<close>

text \<open>
  The development embeds \<^verbatim>\<open>dagster/_core/definitions/input.py\<close>: the declaration of
  an input (\<^verbatim>\<open>InputDefinition\<close>), its merge with the properties inferred from a
  function signature, the name-less template \<^verbatim>\<open>In\<close>, and the mapping of a graph
  input to the input of a node (\<^verbatim>\<open>InputMapping\<close> with its two pointers).

  Python objects whose classes live outside this file are kept opaque: \<open>'v\<close> is the type
  of arbitrary Python values (default values, metadata values, native type objects used as
  type specifiers) and \<open>'c\<close> is the type of the \<^verbatim>\<open>InputContext\<close> handed to the asset
  callbacks. Type hints are taken as given: an argument annotated \<^verbatim>\<open>Optional[str]\<close> is a
  \<open>string option\<close>, so the \<^verbatim>\<open>check.opt_str_param\<close> style checks on it cannot fail
  and are not shown. Warnings (\<^verbatim>\<open>deprecation_warning\<close>,
  \<^verbatim>\<open>experimental_arg_warning\<close>) change no value and are left out.
\<close>

subsection \<open>Errors\<close>

text \<open>
  Every \<^verbatim>\<open>raise\<close> is a value. \<^verbatim>\<open>DagsterInvalidDefinitionError\<close> is a subclass of
  \<^verbatim>\<open>DagsterError\<close>; the constructor \<open>DagsterError\<close> stands for the other subclasses
  (the type registry raises them). A failed \<^verbatim>\<open>check.invariant\<close>,
  \<^verbatim>\<open>check.param_invariant\<close> or \<^verbatim>\<open>check.opt_inst_param\<close> raises a
  \<^verbatim>\<open>CheckError\<close> of \<^verbatim>\<open>dagster._check\<close> (the class the tests of the repository import
  from there and expect from a failed check); it is not a \<^verbatim>\<open>DagsterError\<close>. The string
  is the message for the Dagster errors; for a \<open>CheckError\<close> it is the description
  handed to the check, or the name of the parameter when the check takes no description.
\<close>

datatype error =
    DagsterInvalidDefinitionError string
  | DagsterError string
  | CheckError string

fun is_DagsterError :: "error \<Rightarrow> bool" where
  "is_DagsterError (DagsterInvalidDefinitionError _) = True"
| "is_DagsterError (DagsterError _) = True"
| "is_DagsterError (CheckError _) = False"

fun raises_DagsterInvalidDefinitionError :: "error + 'a \<Rightarrow> bool" where
  "raises_DagsterInvalidDefinitionError (Inl (DagsterInvalidDefinitionError _)) = True"
| "raises_DagsterInvalidDefinitionError _ = False"

fun raises_CheckError :: "error + 'a \<Rightarrow> bool" where
  "raises_CheckError (Inl (CheckError _)) = True"
| "raises_CheckError _ = False"

subsection \<open>Sentinel, type descriptors, type specifiers\<close>

text \<open>
  \<^verbatim>\<open>NoValueSentinel\<close> marks an argument that was not supplied; it is distinct from every
  value, Python's \<^verbatim>\<open>None\<close> included.
\<close>

datatype 'x or_sentinel = NoValueSentinel | Value 'x

text \<open>
  Modelled from the spec: the class \<^verbatim>\<open>DagsterType\<close> (module
  \<^verbatim>\<open>dagster._core.types.dagster_type\<close>) is not among the sources. A descriptor carries
  what \<^verbatim>\<open>input.py\<close> reads of it: \<^verbatim>\<open>display_name\<close>, \<^verbatim>\<open>is_nothing\<close>, and, when the
  descriptor is an instance of \<^verbatim>\<open>BuiltinScalarDagsterType\<close>, the outcome
  (\<^verbatim>\<open>.success\<close>) of its \<^verbatim>\<open>type_check_scalar_value\<close>.
\<close>

record 'v DagsterType =
  display_name :: string
  is_nothing :: bool
  type_check_scalar_value :: "('v \<Rightarrow> bool) option"

text \<open>
  Modelled from the spec: the descriptor \<^verbatim>\<open>Any\<close>, "a degenerate untyped/Any descriptor
  is the resolution of unset"; it is neither the Nothing type nor a built-in scalar.
\<close>

definition Any :: "'v DagsterType" where
  "Any = \<lparr>display_name = ''Any'', is_nothing = False, type_check_scalar_value = None\<rparr>"

text \<open>
  What a caller may pass as \<^verbatim>\<open>dagster_type\<close> or write as an annotation: \<^verbatim>\<open>None\<close>,
  the class \<^verbatim>\<open>type(None)\<close>, a \<^verbatim>\<open>DagsterType\<close> instance, or any other object.
\<close>

datatype 'v type_specifier =
    PyNone
  | NoneType
  | Descriptor "'v DagsterType"
  | Native 'v

text \<open>
  The \<^verbatim>\<open>annotation\<close> of an \<^verbatim>\<open>InferredInputProps\<close>: \<^verbatim>\<open>inspect.Parameter.empty\<close> when the
  parameter has no annotation, the annotation object otherwise (\<open>Annotated PyNone\<close> is a
  parameter annotated with \<^verbatim>\<open>None\<close>).
\<close>

datatype 'v annotation_value = ParameterEmpty | Annotated "'v type_specifier"

record 'v InferredInputProps =
  inferred_name :: string
  annotation :: "'v annotation_value"
  inferred_description :: "string option"
  inferred_default_value :: "'v or_sentinel"

subsection \<open>What the module imports\<close>

text \<open>
  The functions \<^verbatim>\<open>input.py\<close> calls but does not define are parameters of the model:
  the identifier grammar of \<^verbatim>\<open>check_valid_name\<close> and the error it raises, the registry
  behind \<^verbatim>\<open>resolve_dagster_type\<close>, \<^verbatim>\<open>normalize_metadata\<close>, and Python's \<^verbatim>\<open>str\<close> on
  an annotation, on a value and on the type of a value (used in messages).
\<close>

record 'v externals =
  valid_name :: "string \<Rightarrow> bool"
  invalid_name_error :: "string \<Rightarrow> error"
  registry :: "'v type_specifier \<Rightarrow> error + 'v DagsterType"
  normalize_metadata :: "(string \<rightharpoonup> 'v) \<Rightarrow> 'v list"
  str_annotation :: "'v annotation_value \<Rightarrow> string"
  str_value :: "'v \<Rightarrow> string"
  str_type_of :: "'v \<Rightarrow> string"

text \<open>
  Modelled from the spec: \<^verbatim>\<open>check_valid_name\<close> (module \<^verbatim>\<open>.utils\<close>) is not among the
  sources; "name matches the identifier grammar; violating this is a construction-time
  error". A valid name is returned as it is.
\<close>

definition check_valid_name :: "'v externals \<Rightarrow> string \<Rightarrow> error + string" where
  "check_valid_name E n = (if valid_name E n then Inr n else Inl (invalid_name_error E n))"

text \<open>
  Modelled from the spec: \<^verbatim>\<open>resolve_dagster_type\<close> is not among the sources; it
  "converts a raw type specifier (an explicit descriptor, a native-language type, or unset)
  into a canonical type descriptor". Unset resolves to \<open>Any\<close>, a descriptor to itself, and
  everything else is looked up in the registry, which may fail.
\<close>

definition resolve_dagster_type ::
  "'v externals \<Rightarrow> 'v type_specifier \<Rightarrow> error + 'v DagsterType" where
  "resolve_dagster_type E ty =
     (case ty of
        PyNone \<Rightarrow> Inr Any
      | Descriptor t \<Rightarrow> Inr t
      | NoneType \<Rightarrow> registry E NoneType
      | Native x \<Rightarrow> registry E (Native x))"

subsection \<open>\<^verbatim>\<open>_check_default_value\<close>\<close>

definition check_default_value ::
  "'v externals \<Rightarrow> string \<Rightarrow> 'v DagsterType \<Rightarrow> 'v or_sentinel \<Rightarrow> error + 'v or_sentinel" where
  "check_default_value E input_nm ty dv =
     (case dv of
        NoValueSentinel \<Rightarrow> Inr NoValueSentinel
      | Value v \<Rightarrow>
          if is_nothing ty then
            Inl (DagsterInvalidDefinitionError
              ''Setting a default_value is invalid on InputDefinitions of type Nothing'')
          else
            (case type_check_scalar_value ty of
               None \<Rightarrow> Inr (Value v)
             | Some type_check \<Rightarrow>
                 if \<not> type_check v then
                   Inl (DagsterInvalidDefinitionError
                     (''Type check failed for the default_value of InputDefinition ''
                       @ input_nm @ '' of type '' @ display_name ty
                       @ ''. Received value '' @ str_value E v
                       @ '' of type '' @ str_type_of E v))
                 else Inr (Value v)))"

subsection \<open>\<^verbatim>\<open>InputDefinition\<close>\<close>

datatype AssetKey = AssetKey (path: "string list")

text \<open>
  The \<^verbatim>\<open>asset_key\<close> argument: an \<^verbatim>\<open>AssetKey\<close>, or a callable on the context. A callable
  is either a plain Python function (\<open>KeyFunction\<close>: an instance of
  \<^verbatim>\<open>types.FunctionType\<close>, made by \<^verbatim>\<open>def\<close> or \<^verbatim>\<open>lambda\<close>) or another callable object
  (\<open>KeyCallable\<close>: a \<^verbatim>\<open>functools.partial\<close>, a bound method, an instance with
  \<^verbatim>\<open>__call__\<close>); \<^verbatim>\<open>callable\<close> holds of both, \<^verbatim>\<open>isinstance(_, FunctionType)\<close> of the
  first only.
\<close>

datatype 'c asset_key_arg =
    Key AssetKey
  | KeyFunction "'c \<Rightarrow> AssetKey"
  | KeyCallable "'c \<Rightarrow> AssetKey"

datatype 'c asset_partitions_arg =
    PartitionSet "string set"
  | PartitionsFn "'c \<Rightarrow> string set"

record ('v, 'c) InputDefinition =
  name :: string
  type_not_set :: bool
  dagster_type :: "'v DagsterType"
  description :: "string option"
  default_value :: "'v or_sentinel"
  input_manager_key :: "string option"
  root_manager_key :: "string option"
  metadata :: "string \<rightharpoonup> 'v"
  metadata_entries :: "'v list"
  asset_key :: "'c asset_key_arg option"
  asset_partitions_fn :: "('c \<Rightarrow> string set) option"

text \<open>Python's truth value of an optional string and of the \<^verbatim>\<open>asset_partitions\<close> argument.\<close>

fun truthy_str :: "string option \<Rightarrow> bool" where
  "truthy_str None = False"
| "truthy_str (Some s) = (s \<noteq> [])"

fun truthy_partitions :: "'c asset_partitions_arg option \<Rightarrow> bool" where
  "truthy_partitions None = False"
| "truthy_partitions (Some (PartitionSet s)) = (s \<noteq> {})"
| "truthy_partitions (Some (PartitionsFn f)) = True"

text \<open>\<^verbatim>\<open>check.opt_dict_param\<close>: \<^verbatim>\<open>None\<close> becomes the empty dictionary.\<close>

fun opt_dict_param :: "(string \<rightharpoonup> 'v) option \<Rightarrow> (string \<rightharpoonup> 'v)" where
  "opt_dict_param None = Map.empty"
| "opt_dict_param (Some m) = m"

text \<open>Lines 166 to 172: a fixed set is wrapped as a constant function, a callable is kept.\<close>

fun normalize_asset_partitions ::
  "'c asset_partitions_arg option \<Rightarrow> ('c \<Rightarrow> string set) option" where
  "normalize_asset_partitions None = None"
| "normalize_asset_partitions (Some (PartitionsFn f)) = Some f"
| "normalize_asset_partitions (Some (PartitionSet s)) = Some (\<lambda>_. s)"

fun is_PyNone :: "'v type_specifier \<Rightarrow> bool" where
  "is_PyNone PyNone = True"
| "is_PyNone _ = False"

text \<open>The description handed to \<^verbatim>\<open>check.param_invariant\<close> on line 164.\<close>

definition asset_partitions_message :: string where
  "asset_partitions_message =
     ''Cannot specify '' @ [CHR 0x22] @ ''asset_partitions'' @ [CHR 0x22]
       @ '' argument without also specifying '' @ [CHR 0x22] @ ''asset_key'' @ [CHR 0x22]"

text \<open>\<^verbatim>\<open>InputDefinition.__init__\<close>, the checks in the order of the source.\<close>

definition InputDefinition_init ::
  "'v externals \<Rightarrow> string \<Rightarrow> 'v type_specifier \<Rightarrow> string option \<Rightarrow> 'v or_sentinel
    \<Rightarrow> string option \<Rightarrow> (string \<rightharpoonup> 'v) option \<Rightarrow> 'c asset_key_arg option
    \<Rightarrow> 'c asset_partitions_arg option \<Rightarrow> string option
    \<Rightarrow> error + ('v, 'c) InputDefinition" where
  "InputDefinition_init E n ty descr dv root_key md akey aparts input_key =
     (case check_valid_name E n of
        Inl e \<Rightarrow> Inl e
      | Inr nm \<Rightarrow>
     (case resolve_dagster_type E ty of
        Inl e \<Rightarrow> Inl e
      | Inr t \<Rightarrow>
     (case check_default_value E nm t dv of
        Inl e \<Rightarrow> Inl e
      | Inr dv' \<Rightarrow>
     if truthy_str root_key \<and> truthy_str input_key then
       Inl (DagsterInvalidDefinitionError
         (''Can't supply both root input manager key '' @ the root_key
           @ '' and input manager key '' @ the input_key @ '' on InputDefinition.''))
     else if truthy_partitions aparts \<and> akey = None then
       Inl (CheckError asset_partitions_message)
     else
       Inr \<lparr>name = nm,
            type_not_set = is_PyNone ty,
            dagster_type = t,
            description = descr,
            default_value = dv',
            input_manager_key = input_key,
            root_manager_key = root_key,
            metadata = opt_dict_param md,
            metadata_entries = normalize_metadata E (opt_dict_param md),
            asset_key = akey,
            asset_partitions_fn = normalize_asset_partitions aparts\<rparr>)))"

definition has_default_value :: "('v, 'c) InputDefinition \<Rightarrow> bool" where
  "has_default_value d = (case default_value d of NoValueSentinel \<Rightarrow> False | Value _ \<Rightarrow> True)"

definition is_asset :: "('v, 'c) InputDefinition \<Rightarrow> bool" where
  "is_asset d = (asset_key d \<noteq> None)"

definition hardcoded_asset_key :: "('v, 'c) InputDefinition \<Rightarrow> AssetKey option" where
  "hardcoded_asset_key d = (case asset_key d of Some (Key k) \<Rightarrow> Some k | _ \<Rightarrow> None)"

definition get_asset_key :: "('v, 'c) InputDefinition \<Rightarrow> 'c \<Rightarrow> AssetKey option" where
  "get_asset_key d ctx =
     (case asset_key d of
        Some (KeyFunction f) \<Rightarrow> Some (f ctx)
      | Some (KeyCallable f) \<Rightarrow> Some (f ctx)
      | _ \<Rightarrow> hardcoded_asset_key d)"

definition get_asset_partitions :: "('v, 'c) InputDefinition \<Rightarrow> 'c \<Rightarrow> string set option" where
  "get_asset_partitions d ctx =
     (case asset_partitions_fn d of None \<Rightarrow> None | Some f \<Rightarrow> Some (f ctx))"

subsection \<open>\<^verbatim>\<open>_checked_inferred_type\<close> and the merge with inferred properties\<close>

text \<open>The specifier handed to \<^verbatim>\<open>resolve_dagster_type\<close> in each of the three branches.\<close>

fun inferred_specifier :: "'v annotation_value \<Rightarrow> 'v type_specifier" where
  "inferred_specifier ParameterEmpty = PyNone"
| "inferred_specifier (Annotated PyNone) = NoneType"
| "inferred_specifier (Annotated a) = a"

definition inferred_type_message :: "'v externals \<Rightarrow> 'v InferredInputProps \<Rightarrow> string" where
  "inferred_type_message E inferred =
     ''Problem using type '' @ [CHR 0x27] @ str_annotation E (annotation inferred)
       @ [CHR 0x27] @ '' from type annotation for argument '' @ [CHR 0x27]
       @ inferred_name inferred @ [CHR 0x27]
       @ '', correct the issue or explicitly set the dagster_type via In().''"

definition checked_inferred_type ::
  "'v externals \<Rightarrow> 'v InferredInputProps \<Rightarrow> error + 'v DagsterType" where
  "checked_inferred_type E inferred =
     (case resolve_dagster_type E (inferred_specifier (annotation inferred)) of
        Inl e \<Rightarrow>
          if is_DagsterError e
          then Inl (DagsterInvalidDefinitionError (inferred_type_message E inferred))
          else Inl e
      | Inr resolved_type \<Rightarrow> Inr resolved_type)"

definition create_from_inferred ::
  "'v externals \<Rightarrow> 'v InferredInputProps \<Rightarrow> error + ('v, 'c) InputDefinition" where
  "create_from_inferred E inferred =
     (case checked_inferred_type E inferred of
        Inl e \<Rightarrow> Inl e
      | Inr t \<Rightarrow>
          InputDefinition_init E (inferred_name inferred) (Descriptor t)
            (inferred_description inferred) (inferred_default_value inferred)
            None None None None None)"

definition combine_with_inferred ::
  "'v externals \<Rightarrow> ('v, 'c) InputDefinition \<Rightarrow> 'v InferredInputProps
    \<Rightarrow> error + ('v, 'c) InputDefinition" where
  "combine_with_inferred E d inferred =
     (if name d \<noteq> inferred_name inferred then
        Inl (CheckError
          (''InferredInputProps name '' @ inferred_name inferred
            @ '' did not align with InputDefinition name '' @ name d))
      else
        (case (if type_not_set d then checked_inferred_type E inferred
               else Inr (dagster_type d)) of
           Inl e \<Rightarrow> Inl e
         | Inr t \<Rightarrow>
             InputDefinition_init E (name d) (Descriptor t)
               (if description d = None \<and> inferred_description inferred \<noteq> None
                then inferred_description inferred else description d)
               (if \<not> has_default_value d then inferred_default_value inferred
                else default_value d)
               (root_manager_key d)
               (Some (metadata d))
               (asset_key d)
               (map_option PartitionsFn (asset_partitions_fn d))
               (input_manager_key d)))"

subsection \<open>Pointers and \<^verbatim>\<open>InputMapping\<close>\<close>

text \<open>
  The two pointer classes are named tuples of different lengths, so no direct pointer
  equals a fan-in pointer. An index is a Python \<^verbatim>\<open>int\<close>: unbounded, of either sign.
\<close>

datatype input_pointer =
    InputPointer (solid_name: string) (input_name: string)
  | FanInInputPointer (solid_name: string) (input_name: string) (pointer_fan_in_index: int)

record 'v InputMapping =
  graph_input_name :: string
  mapped_node_name :: string
  mapped_node_input_name :: string
  fan_in_index :: "int option"
  graph_input_description :: "string option"
  mapping_dagster_type :: "'v DagsterType option"

definition maps_to :: "'v InputMapping \<Rightarrow> input_pointer" where
  "maps_to m =
     (case fan_in_index m of
        Some k \<Rightarrow> FanInInputPointer (mapped_node_name m) (mapped_node_input_name m) k
      | None \<Rightarrow> InputPointer (mapped_node_name m) (mapped_node_input_name m))"

definition maps_to_fan_in :: "'v InputMapping \<Rightarrow> bool" where
  "maps_to_fan_in m = (case maps_to m of FanInInputPointer _ _ _ \<Rightarrow> True | _ \<Rightarrow> False)"

text \<open>Python's \<^verbatim>\<open>str\<close> of an \<^verbatim>\<open>int\<close>: decimal digits, a minus sign when negative.\<close>

definition digit_char :: "nat \<Rightarrow> char" where
  "digit_char n = ''0123456789'' ! (n mod 10)"

function str_nat :: "nat \<Rightarrow> string" where
  "str_nat n = (if n < 10 then [digit_char n] else str_nat (n div 10) @ [digit_char n])"
  by pat_completeness auto
termination
  by (relation "measure id") auto

definition str_int :: "int \<Rightarrow> string" where
  "str_int i = (if i < 0 then CHR ''-'' # str_nat (nat (- i)) else str_nat (nat i))"

definition describe :: "'v InputMapping \<Rightarrow> string" where
  "describe m =
     (let idx = (case maps_to m of
                   FanInInputPointer _ _ k \<Rightarrow> str_int k
                 | InputPointer _ _ \<Rightarrow> [])
      in graph_input_name m @ '' -> '' @ solid_name (maps_to m) @ '':''
           @ input_name (maps_to m) @ idx)"

definition mapping_to ::
  "('v, 'c) InputDefinition \<Rightarrow> string \<Rightarrow> string \<Rightarrow> int option \<Rightarrow> 'v InputMapping" where
  "mapping_to d solid_nm input_nm idx =
     \<lparr>graph_input_name = name d,
      mapped_node_name = solid_nm,
      mapped_node_input_name = input_nm,
      fan_in_index = idx,
      graph_input_description = description d,
      mapping_dagster_type = Some (dagster_type d)\<rparr>"

definition get_definition ::
  "'v externals \<Rightarrow> 'v InputMapping \<Rightarrow> error + ('v, 'c) InputDefinition" where
  "get_definition E m =
     InputDefinition_init E (graph_input_name m)
       (case mapping_dagster_type m of None \<Rightarrow> PyNone | Some t \<Rightarrow> Descriptor t)
       (graph_input_description m) NoValueSentinel None None None None None"

subsection \<open>The template \<^verbatim>\<open>In\<close>\<close>

record ('v, 'c) In =
  in_dagster_type :: "'v DagsterType or_sentinel"
  in_description :: "string option"
  in_default_value :: "'v or_sentinel"
  in_root_manager_key :: "string option"
  in_metadata :: "string \<rightharpoonup> 'v"
  in_asset_key :: "'c asset_key_arg option"
  in_asset_partitions :: "'c asset_partitions_arg option"
  in_input_manager_key :: "string option"

text \<open>
  \<^verbatim>\<open>check.opt_inst_param(asset_key, "asset_key", (AssetKey, FunctionType))\<close>: a callable
  that is not a plain function is refused.
\<close>

fun is_AssetKey_or_FunctionType :: "'c asset_key_arg option \<Rightarrow> bool" where
  "is_AssetKey_or_FunctionType (Some (KeyCallable f)) = False"
| "is_AssetKey_or_FunctionType _ = True"

definition In_new ::
  "'v externals \<Rightarrow> 'v type_specifier or_sentinel \<Rightarrow> string option \<Rightarrow> 'v or_sentinel
    \<Rightarrow> string option \<Rightarrow> (string \<rightharpoonup> 'v) option \<Rightarrow> 'c asset_key_arg option
    \<Rightarrow> 'c asset_partitions_arg option \<Rightarrow> string option \<Rightarrow> error + ('v, 'c) In" where
  "In_new E ty descr dv root_key md akey aparts input_key =
     (if truthy_str root_key \<and> truthy_str input_key then
        Inl (DagsterInvalidDefinitionError
          (''Can't supply both root input manager key '' @ the root_key
            @ '' and input manager key '' @ the input_key @ '' on InputDefinition.''))
      else
        (case (case ty of
                 NoValueSentinel \<Rightarrow> Inr NoValueSentinel
               | Value s \<Rightarrow>
                   (case resolve_dagster_type E s of
                      Inl e \<Rightarrow> Inl e
                    | Inr t \<Rightarrow> Inr (Value t))) of
           Inl e \<Rightarrow> Inl e
         | Inr t \<Rightarrow>
             if \<not> is_AssetKey_or_FunctionType akey then
               Inl (CheckError ''asset_key'')
             else
               Inr \<lparr>in_dagster_type = t,
                    in_description = descr,
                    in_default_value = dv,
                    in_root_manager_key = root_key,
                    in_metadata = opt_dict_param md,
                    in_asset_key = akey,
                    in_asset_partitions = aparts,
                    in_input_manager_key = input_key\<rparr>))"

definition from_definition ::
  "'v externals \<Rightarrow> ('v, 'c) InputDefinition \<Rightarrow> error + ('v, 'c) In" where
  "from_definition E input_def =
     In_new E (Value (Descriptor (dagster_type input_def)))
       (description input_def)
       (default_value input_def)
       (root_manager_key input_def)
       (Some (metadata input_def))
       (asset_key input_def)
       (map_option PartitionsFn (asset_partitions_fn input_def))
       (input_manager_key input_def)"

definition to_definition ::
  "'v externals \<Rightarrow> ('v, 'c) In \<Rightarrow> string \<Rightarrow> error + ('v, 'c) InputDefinition" where
  "to_definition E t n =
     InputDefinition_init E n
       (case in_dagster_type t of NoValueSentinel \<Rightarrow> PyNone | Value ty \<Rightarrow> Descriptor ty)
       (in_description t)
       (in_default_value t)
       (in_root_manager_key t)
       (Some (in_metadata t))
       (in_asset_key t)
       (in_asset_partitions t)
       (in_input_manager_key t)"

subsection \<open>A concrete environment\<close>

text \<open>
  An instance of the imported functions, for evaluating the model on concrete inputs:
  values are integers, a name is valid when it is not empty, and the registry resolves
  \<^verbatim>\<open>type(None)\<close> and the native type number 0 to the Nothing type, the native type
  number 1 to the built-in scalar \<^verbatim>\<open>Int\<close> (whose check every integer passes), and
  rejects the rest with a \<^verbatim>\<open>DagsterError\<close>.
\<close>

definition example_nothing :: "int DagsterType" where
  "example_nothing =
     \<lparr>display_name = ''Nothing'', is_nothing = True, type_check_scalar_value = None\<rparr>"

definition example_int :: "int DagsterType" where
  "example_int =
     \<lparr>display_name = ''Int'', is_nothing = False,
      type_check_scalar_value = Some (\<lambda>v. True)\<rparr>"

fun example_registry :: "int type_specifier \<Rightarrow> error + int DagsterType" where
  "example_registry NoneType = Inr example_nothing"
| "example_registry (Native x) =
     (if x = 0 then Inr example_nothing
      else if x = 1 then Inr example_int
      else Inl (DagsterError ''unknown type''))"
| "example_registry PyNone = Inr Any"
| "example_registry (Descriptor t) = Inr t"

definition example_externals :: "int externals" where
  "example_externals =
     \<lparr>valid_name = (\<lambda>n. n \<noteq> []),
      invalid_name_error = (\<lambda>n. DagsterInvalidDefinitionError n),
      registry = example_registry,
      normalize_metadata = (\<lambda>m. []),
      str_annotation = (\<lambda>a. ''T''),
      str_value = (\<lambda>v. str_int v),
      str_type_of = (\<lambda>v. ''int'')\<rparr>"

text \<open>
  A declaration built with a name only, and properties inferred for the same name from a
  parameter annotated with \<^verbatim>\<open>None\<close>, documented, with default 5.
\<close>

definition example_input :: "(int, unit) InputDefinition" where
  "example_input =
     \<lparr>name = ''x'', type_not_set = True, dagster_type = Any, description = None,
      default_value = NoValueSentinel, input_manager_key = None, root_manager_key = None,
      metadata = Map.empty, metadata_entries = [], asset_key = None,
      asset_partitions_fn = None\<rparr>"

definition example_inferred :: "int InferredInputProps" where
  "example_inferred =
     \<lparr>inferred_name = ''x'', annotation = Annotated PyNone,
      inferred_description = Some ''doc'', inferred_default_value = Value 5\<rparr>"

text \<open>
  Three more declarations: one with an asset key, a fixed partition set and a default;
  one built with the empty partition set and no asset key; one whose asset key is a
  callable object that is not a plain function. The template is what
  \<^verbatim>\<open>In.from_definition\<close> makes of the second.
\<close>

definition example_asset_input :: "(int, unit) InputDefinition" where
  "example_asset_input =
     \<lparr>name = ''x'', type_not_set = True, dagster_type = Any, description = Some ''doc'',
      default_value = Value 3, input_manager_key = Some ''io'', root_manager_key = None,
      metadata = Map.empty, metadata_entries = [], asset_key = Some (Key (AssetKey [''a''])),
      asset_partitions_fn = Some (\<lambda>_. {''p1''})\<rparr>"

definition example_empty_partitions :: "(int, unit) InputDefinition" where
  "example_empty_partitions = example_input\<lparr>asset_partitions_fn := Some (\<lambda>_. {})\<rparr>"

definition example_callable_key :: "(int, unit) InputDefinition" where
  "example_callable_key =
     example_input\<lparr>asset_key := Some (KeyCallable (\<lambda>_. AssetKey [''a'']))\<rparr>"

definition example_template :: "(int, unit) In" where
  "example_template =
     \<lparr>in_dagster_type = Value Any, in_description = None, in_default_value = NoValueSentinel,
      in_root_manager_key = None, in_metadata = Map.empty, in_asset_key = None,
      in_asset_partitions = Some (PartitionsFn (\<lambda>_. {})), in_input_manager_key = None\<rparr>"

text \<open>Properties inferred from a parameter whose annotation the registry does not know.\<close>

definition example_unknown_annotation :: "int InferredInputProps" where
  "example_unknown_annotation =
     \<lparr>inferred_name = ''x'', annotation = Annotated (Native 7),
      inferred_description = None, inferred_default_value = NoValueSentinel\<rparr>"

text \<open>
  Two declarations with every argument of the constructor supplied that can be supplied
  together. The first has an explicit type, a description, a default, an input manager
  key, metadata, a fixed asset key and a fixed partition set. The second leaves type and
  description unset and has a default, a root manager key, metadata, and functions for
  asset key and partitions.
\<close>

definition example_keyed_input :: "(int, unit) InputDefinition" where
  "example_keyed_input =
     \<lparr>name = ''x'', type_not_set = False, dagster_type = example_int,
      description = Some ''mine'', default_value = Value 3,
      input_manager_key = Some ''io'', root_manager_key = None,
      metadata = [''owner'' \<mapsto> 1], metadata_entries = [],
      asset_key = Some (Key (AssetKey [''a''])),
      asset_partitions_fn = Some (\<lambda>_. {''p1''})\<rparr>"

definition example_root_input :: "(int, unit) InputDefinition" where
  "example_root_input =
     \<lparr>name = ''x'', type_not_set = True, dagster_type = Any,
      description = None, default_value = Value 3,
      input_manager_key = None, root_manager_key = Some ''root'',
      metadata = [''team'' \<mapsto> 2], metadata_entries = [],
      asset_key = Some (KeyFunction (\<lambda>_. AssetKey [''b''])),
      asset_partitions_fn = Some (\<lambda>_. {''p2''})\<rparr>"

text \<open>
  Inferred properties for the same name: a parameter annotated with the native type
  number 1, documented, with default 5; one with an annotation the registry does not know,
  documented, with default 5; and one with no annotation, no description and no default.
\<close>

definition example_int_inferred :: "int InferredInputProps" where
  "example_int_inferred =
     \<lparr>inferred_name = ''x'', annotation = Annotated (Native 1),
      inferred_description = Some ''doc'', inferred_default_value = Value 5\<rparr>"

definition example_other_inferred :: "int InferredInputProps" where
  "example_other_inferred =
     \<lparr>inferred_name = ''x'', annotation = Annotated (Native 7),
      inferred_description = Some ''doc'', inferred_default_value = Value 5\<rparr>"

definition example_bare_inferred :: "int InferredInputProps" where
  "example_bare_inferred =
     \<lparr>inferred_name = ''x'', annotation = ParameterEmpty,
      inferred_description = None, inferred_default_value = NoValueSentinel\<rparr>"

section \<open>Properties\<close>

subsection \<open>The constructor\<close>

lemma check_default_value_Inr:
  "check_default_value E n t dv = Inr dv' \<Longrightarrow> dv' = dv"
  by (auto simp: check_default_value_def split: or_sentinel.splits option.splits if_splits)

lemma check_default_value_name:
  "check_default_value E n t dv = Inr dv' \<Longrightarrow> check_default_value E n' t dv = Inr dv'"
  by (auto simp: check_default_value_def split: or_sentinel.splits option.splits if_splits)

lemma resolve_Descriptor: "resolve_dagster_type E (Descriptor t) = Inr t"
  by (simp add: resolve_dagster_type_def)

text \<open>What a successful construction says about its arguments and its result.\<close>

lemma InputDefinition_init_Inr:
  assumes "InputDefinition_init E n ty descr dv rk md ak ap ik = Inr d"
  shows "valid_name E n"
    and "\<exists>t. resolve_dagster_type E ty = Inr t \<and> check_default_value E n t dv = Inr dv
           \<and> d = \<lparr>name = n, type_not_set = is_PyNone ty, dagster_type = t,
            description = descr, default_value = dv, input_manager_key = ik,
            root_manager_key = rk, metadata = opt_dict_param md,
            metadata_entries = normalize_metadata E (opt_dict_param md),
            asset_key = ak, asset_partitions_fn = normalize_asset_partitions ap\<rparr>"
    and "\<not> (truthy_str rk \<and> truthy_str ik)"
    and "\<not> (truthy_partitions ap \<and> ak = None)"
  using assms
  by (auto simp: InputDefinition_init_def check_valid_name_def
      split: sum.splits if_splits dest: check_default_value_Inr)

text \<open>The construction succeeds as soon as each check passes.\<close>

lemma InputDefinition_init_success:
  assumes "valid_name E n" and "resolve_dagster_type E ty = Inr t"
    and "check_default_value E n t dv = Inr dv"
    and "\<not> (truthy_str rk \<and> truthy_str ik)" and "\<not> (truthy_partitions ap \<and> ak = None)"
  shows "InputDefinition_init E n ty descr dv rk md ak ap ik =
     Inr \<lparr>name = n, type_not_set = is_PyNone ty, dagster_type = t,
            description = descr, default_value = dv, input_manager_key = ik,
            root_manager_key = rk, metadata = opt_dict_param md,
            metadata_entries = normalize_metadata E (opt_dict_param md),
            asset_key = ak, asset_partitions_fn = normalize_asset_partitions ap\<rparr>"
  using assms by (simp add: InputDefinition_init_def check_valid_name_def)

lemma normalize_PartitionsFn:
  "normalize_asset_partitions (map_option PartitionsFn f) = f"
  by (cases f) auto

lemma example_input_constructed:
  "InputDefinition_init example_externals ''x'' PyNone None NoValueSentinel None None None
     None None = Inr example_input"
  by (simp add: InputDefinition_init_def check_valid_name_def resolve_dagster_type_def
      check_default_value_def example_externals_def example_input_def)

lemma example_asset_input_constructed:
  "InputDefinition_init example_externals ''x'' PyNone (Some ''doc'') (Value 3) None None
     (Some (Key (AssetKey [''a'']))) (Some (PartitionSet {''p1''})) (Some ''io'')
     = Inr example_asset_input"
  by (simp add: InputDefinition_init_def check_valid_name_def resolve_dagster_type_def
      check_default_value_def example_externals_def example_asset_input_def Any_def)

lemma example_keyed_input_constructed:
  "InputDefinition_init example_externals ''x'' (Native 1) (Some ''mine'') (Value 3) None
     (Some [''owner'' \<mapsto> 1]) (Some (Key (AssetKey [''a''])))
     (Some (PartitionSet {''p1''})) (Some ''io'')
     = Inr example_keyed_input"
  by (simp add: InputDefinition_init_def check_valid_name_def resolve_dagster_type_def
      check_default_value_def example_externals_def example_keyed_input_def example_int_def)

lemma example_root_input_constructed:
  "InputDefinition_init example_externals ''x'' PyNone None (Value 3) (Some ''root'')
     (Some [''team'' \<mapsto> 2]) (Some (KeyFunction (\<lambda>_. AssetKey [''b''])))
     (Some (PartitionsFn (\<lambda>_. {''p2''}))) None
     = Inr example_root_input"
  by (simp add: InputDefinition_init_def check_valid_name_def resolve_dagster_type_def
      check_default_value_def example_externals_def example_root_input_def Any_def)

text \<open>
  Three merges. Every setting of the first declaration wins, and the unknown annotation
  is never resolved; the blank declaration takes everything from the inferred properties;
  the third keeps its default and takes type and description.
\<close>

lemma example_keyed_combined:
  "combine_with_inferred example_externals example_keyed_input example_other_inferred =
     Inr example_keyed_input"
  by (simp add: combine_with_inferred_def InputDefinition_init_def
      check_valid_name_def resolve_dagster_type_def has_default_value_def
      check_default_value_def example_externals_def example_keyed_input_def
      example_other_inferred_def example_int_def)

lemma example_blank_combined:
  "combine_with_inferred example_externals example_input example_int_inferred =
     Inr (example_input\<lparr>type_not_set := False, dagster_type := example_int,
           description := Some ''doc'', default_value := Value 5\<rparr>)"
  by (simp add: combine_with_inferred_def checked_inferred_type_def InputDefinition_init_def
      check_valid_name_def resolve_dagster_type_def has_default_value_def
      check_default_value_def example_externals_def example_input_def
      example_int_inferred_def example_int_def)

lemma example_root_combined:
  "combine_with_inferred example_externals example_root_input example_int_inferred =
     Inr (example_root_input\<lparr>type_not_set := False, dagster_type := example_int,
           description := Some ''doc''\<rparr>)"
  by (simp add: combine_with_inferred_def checked_inferred_type_def InputDefinition_init_def
      check_valid_name_def resolve_dagster_type_def has_default_value_def
      check_default_value_def example_externals_def example_root_input_def
      example_int_inferred_def example_int_def)

text \<open>
  A parameter annotated with \<^verbatim>\<open>None\<close> resolves to the Nothing type here, so merging
  its default 5 into the blank declaration is refused by the default check.
\<close>

lemma example_none_annotation_default_refused:
  "combine_with_inferred example_externals example_input example_inferred =
     Inl (DagsterInvalidDefinitionError
       ''Setting a default_value is invalid on InputDefinitions of type Nothing'')"
  by (simp add: combine_with_inferred_def checked_inferred_type_def InputDefinition_init_def
      check_valid_name_def resolve_dagster_type_def has_default_value_def
      check_default_value_def example_externals_def example_input_def
      example_inferred_def example_nothing_def)

lemma str_int_examples:
  "str_int 0 = ''0''" "str_int 2 = ''2''" "str_int 12 = ''12''" "str_int (- 3) = ''-3''"
  "str_int 1234567890 = ''1234567890''"
  by (simp_all add: str_int_def digit_char_def)

subsection \<open>Merging a declaration with inferred properties\<close>

text \<open>
  The call of the constructor that \<^verbatim>\<open>combine_with_inferred\<close> ends with, when it returns.
\<close>

lemma combine_with_inferred_Inr:
  assumes "combine_with_inferred E d i = Inr r"
  obtains t where
    "(if type_not_set d then checked_inferred_type E i else Inr (dagster_type d)) = Inr t"
    and "InputDefinition_init E (name d) (Descriptor t)
               (if description d = None \<and> inferred_description i \<noteq> None
                then inferred_description i else description d)
               (if \<not> has_default_value d then inferred_default_value i
                else default_value d)
               (root_manager_key d) (Some (metadata d)) (asset_key d)
               (map_option PartitionsFn (asset_partitions_fn d)) (input_manager_key d) = Inr r"
  using assms by (auto simp: combine_with_inferred_def split: sum.splits if_splits)

text \<open>
  The merged declaration always records its type as explicit: the constructor is handed a
  descriptor, never \<^verbatim>\<open>None\<close>.
\<close>

lemma combine_with_inferred_type_explicit:
  assumes "combine_with_inferred E d i = Inr r"
  shows "\<not> type_not_set r"
proof -
  from assms obtain t where
    init: "InputDefinition_init E (name d) (Descriptor t)
               (if description d = None \<and> inferred_description i \<noteq> None
                then inferred_description i else description d)
               (if \<not> has_default_value d then inferred_default_value i
                else default_value d)
               (root_manager_key d) (Some (metadata d)) (asset_key d)
               (map_option PartitionsFn (asset_partitions_fn d)) (input_manager_key d) = Inr r"
    by (rule combine_with_inferred_Inr)
  from InputDefinition_init_Inr(2)[OF init] show ?thesis by auto
qed

lemma combine_with_inferred_type_explicit_example:
  "combine_with_inferred example_externals example_input example_int_inferred =
     Inr (example_input\<lparr>type_not_set := False, dagster_type := example_int,
           description := Some ''doc'', default_value := Value 5\<rparr>)
   \<and> type_not_set example_input
   \<and> \<not> type_not_set (example_input\<lparr>type_not_set := False,
           dagster_type := example_int, description := Some ''doc'',
           default_value := Value 5\<rparr>)"
  using example_blank_combined combine_with_inferred_type_explicit [OF example_blank_combined]
  by (simp add: example_input_def)

text \<open>
  A declaration built with the empty partition set and no asset key cannot be merged: its
  stored partitions are a function, for which the constructor asks for an asset key.
\<close>

lemma combine_with_inferred_empty_partitions:
  "combine_with_inferred example_externals example_empty_partitions example_int_inferred
     = Inl (CheckError asset_partitions_message)"
  by (simp add: combine_with_inferred_def checked_inferred_type_def InputDefinition_init_def
      check_valid_name_def resolve_dagster_type_def has_default_value_def
      check_default_value_def example_externals_def example_input_def
      example_int_inferred_def example_empty_partitions_def example_int_def)



text \<open>
  C2, as the code has it. For a validly constructed declaration \<open>d\<close> and inferred
  properties \<open>i\<close> of the same name, the declaration \<open>r\<close> returned by
  \<^verbatim>\<open>d.combine_with_inferred(i)\<close> has the name, the root manager key, the input manager
  key, the metadata (and the entries made of it), the asset key and the asset partitions
  of \<open>d\<close>, as stored and as \<^verbatim>\<open>get_asset_key\<close> and \<^verbatim>\<open>get_asset_partitions\<close> return
  them in every context. Besides type descriptor, description and default value, the one
  thing that can differ from \<open>d\<close> is the private flag \<^verbatim>\<open>_type_not_set\<close>: \<open>r\<close>
  always records its type as explicit.
\<close>

theorem combine_with_inferred_frame:
  assumes "InputDefinition_init E n ty descr dv rk md ak ap ik = Inr d"
    and "name d = inferred_name i" and "combine_with_inferred E d i = Inr r"
  shows "name r = name d
    \<and> root_manager_key r = root_manager_key d
    \<and> input_manager_key r = input_manager_key d
    \<and> metadata r = metadata d
    \<and> metadata_entries r = metadata_entries d
    \<and> asset_key r = asset_key d
    \<and> asset_partitions_fn r = asset_partitions_fn d
    \<and> get_asset_key r = get_asset_key d
    \<and> get_asset_partitions r = get_asset_partitions d
    \<and> \<not> type_not_set r
    \<and> r = d\<lparr>type_not_set := False, dagster_type := dagster_type r,
             description := description r, default_value := default_value r\<rparr>"
proof -
  from assms(3) obtain t where
    init: "InputDefinition_init E (name d) (Descriptor t)
               (if description d = None \<and> inferred_description i \<noteq> None
                then inferred_description i else description d)
               (if \<not> has_default_value d then inferred_default_value i
                else default_value d)
               (root_manager_key d) (Some (metadata d)) (asset_key d)
               (map_option PartitionsFn (asset_partitions_fn d)) (input_manager_key d) = Inr r"
    by (rule combine_with_inferred_Inr)
  from InputDefinition_init_Inr(2)[OF assms(1)]
  have e: "metadata_entries d = normalize_metadata E (metadata d)"
    by auto
  from InputDefinition_init_Inr(2)[OF init]
  have r: "name r = name d" "root_manager_key r = root_manager_key d"
    "input_manager_key r = input_manager_key d" "metadata r = metadata d"
    "asset_key r = asset_key d"
    "asset_partitions_fn r = asset_partitions_fn d"
    "metadata_entries r = normalize_metadata E (metadata d)"
    "\<not> type_not_set r"
    by (auto simp: normalize_PartitionsFn)
  have h: "hardcoded_asset_key r = hardcoded_asset_key d"
    using r(5) by (simp add: hardcoded_asset_key_def)
  have k: "get_asset_key r = get_asset_key d"
    using r(5) h
    by (auto simp: get_asset_key_def fun_eq_iff split: option.splits asset_key_arg.splits)
  have p: "get_asset_partitions r = get_asset_partitions d"
    using r(6) by (simp add: get_asset_partitions_def fun_eq_iff)
  have q: "r = d\<lparr>type_not_set := False, dagster_type := dagster_type r,
             description := description r, default_value := default_value r\<rparr>"
    using r e by (intro InputDefinition.equality) simp_all
  show ?thesis using r e k p q by simp
qed

theorem combine_with_inferred_frame_witness:
  "InputDefinition_init example_externals ''x'' (Native 1) (Some ''mine'') (Value 3) None
     (Some [''owner'' \<mapsto> 1]) (Some (Key (AssetKey [''a''])))
     (Some (PartitionSet {''p1''})) (Some ''io'')
     = Inr example_keyed_input
   \<and> name example_keyed_input = inferred_name example_other_inferred
   \<and> combine_with_inferred example_externals example_keyed_input example_other_inferred
       = Inr example_keyed_input
   \<and> input_manager_key example_keyed_input = Some ''io''
   \<and> metadata example_keyed_input = [''owner'' \<mapsto> 1]
   \<and> asset_key example_keyed_input = Some (Key (AssetKey [''a'']))
   \<and> get_asset_key example_keyed_input () = Some (AssetKey [''a''])
   \<and> get_asset_partitions example_keyed_input () = Some {''p1''}
   \<and> InputDefinition_init example_externals ''x'' PyNone None (Value 3) (Some ''root'')
       (Some [''team'' \<mapsto> 2]) (Some (KeyFunction (\<lambda>_. AssetKey [''b''])))
       (Some (PartitionsFn (\<lambda>_. {''p2''}))) None
       = Inr example_root_input
   \<and> name example_root_input = inferred_name example_int_inferred
   \<and> combine_with_inferred example_externals example_root_input example_int_inferred
       = Inr (example_root_input\<lparr>type_not_set := False, dagster_type := example_int,
               description := Some ''doc''\<rparr>)
   \<and> root_manager_key (example_root_input\<lparr>type_not_set := False,
         dagster_type := example_int, description := Some ''doc''\<rparr>) = Some ''root''
   \<and> metadata (example_root_input\<lparr>type_not_set := False,
         dagster_type := example_int, description := Some ''doc''\<rparr>) = [''team'' \<mapsto> 2]
   \<and> get_asset_key (example_root_input\<lparr>type_not_set := False,
         dagster_type := example_int, description := Some ''doc''\<rparr>) ()
       = Some (AssetKey [''b''])
   \<and> get_asset_partitions (example_root_input\<lparr>type_not_set := False,
         dagster_type := example_int, description := Some ''doc''\<rparr>) ()
       = Some {''p2''}"
proof -
  have h1: "name example_keyed_input = inferred_name example_other_inferred"
    by (simp add: example_keyed_input_def example_other_inferred_def)
  have h3: "name example_root_input = inferred_name example_int_inferred"
    by (simp add: example_root_input_def example_int_inferred_def)
  have k: "input_manager_key example_keyed_input = Some ''io''"
    "metadata example_keyed_input = [''owner'' \<mapsto> 1]"
    "asset_key example_keyed_input = Some (Key (AssetKey [''a'']))"
    "get_asset_key example_keyed_input () = Some (AssetKey [''a''])"
    "get_asset_partitions example_keyed_input () = Some {''p1''}"
    by (simp_all add: example_keyed_input_def get_asset_key_def hardcoded_asset_key_def
        get_asset_partitions_def)
  have r: "root_manager_key example_root_input = Some ''root''"
    "metadata example_root_input = [''team'' \<mapsto> 2]"
    "get_asset_key example_root_input () = Some (AssetKey [''b''])"
    "get_asset_partitions example_root_input () = Some {''p2''}"
    by (simp_all add: example_root_input_def get_asset_key_def get_asset_partitions_def)
  show ?thesis
    using h1 h3 k r example_keyed_input_constructed example_root_input_constructed
      example_keyed_combined example_root_combined
      combine_with_inferred_frame [OF example_keyed_input_constructed h1
        example_keyed_combined]
      combine_with_inferred_frame [OF example_root_input_constructed h3
        example_root_combined]
    by simp
qed

text \<open>
  C2 as stated fails on "only type descriptor, description and default value can differ":
  merging the declaration built with a name only with properties that carry no
  annotation, no description and no default returns a declaration with the descriptor,
  the description and the default of the original, and yet a different one, its type now
  recorded as explicit.
\<close>

theorem combine_with_inferred_changes_type_not_set:
  "InputDefinition_init example_externals ''x'' PyNone None NoValueSentinel None None None
     None None = Inr example_input
   \<and> name example_input = inferred_name example_bare_inferred
   \<and> combine_with_inferred example_externals example_input example_bare_inferred
       = Inr (example_input\<lparr>type_not_set := False\<rparr>)
   \<and> dagster_type (example_input\<lparr>type_not_set := False\<rparr>) = dagster_type example_input
   \<and> description (example_input\<lparr>type_not_set := False\<rparr>) = description example_input
   \<and> default_value (example_input\<lparr>type_not_set := False\<rparr>)
       = default_value example_input
   \<and> example_input\<lparr>type_not_set := False\<rparr> \<noteq> example_input
   \<and> type_not_set example_input
   \<and> \<not> type_not_set (example_input\<lparr>type_not_set := False\<rparr>)"
  by (simp add: combine_with_inferred_def checked_inferred_type_def InputDefinition_init_def
      check_valid_name_def resolve_dagster_type_def has_default_value_def
      check_default_value_def example_externals_def example_input_def
      example_bare_inferred_def)

subsection \<open>Mappings\<close>

text \<open>
  C4. For every mapping \<open>m\<close>, \<^verbatim>\<open>m.maps_to\<close> is the fan-in pointer to the mapped node
  and input with the index of \<open>m\<close> exactly when the index is present, and the direct
  pointer to them exactly when it is absent; \<^verbatim>\<open>d.mapping_to(node, port)\<close> yields a direct
  pointer and \<^verbatim>\<open>d.mapping_to(node, port, j)\<close> a fan-in pointer with index \<open>j\<close>.
\<close>

theorem maps_to_variant:
  "(maps_to m = FanInInputPointer (mapped_node_name m) (mapped_node_input_name m) k
     \<longleftrightarrow> fan_in_index m = Some k)
   \<and> (maps_to m = InputPointer (mapped_node_name m) (mapped_node_input_name m)
     \<longleftrightarrow> fan_in_index m = None)
   \<and> maps_to (mapping_to d node port None) = InputPointer node port
   \<and> maps_to (mapping_to d node port (Some j)) = FanInInputPointer node port j"
  by (auto simp: maps_to_def mapping_to_def split: option.splits)

text \<open>
  C5, as the code has it. No construction of a mapping looks at the sign of the index:
  \<^verbatim>\<open>mapping_to\<close> stores the optional integer it is given, and a mapping with any index
  \<open>k\<close>, negative or not, maps to the fan-in pointer with that index.
\<close>

theorem fan_in_index_unchecked:
  "fan_in_index (mapping_to d node port idx) = idx
   \<and> maps_to (mapping_to d node port (Some k)) = FanInInputPointer node port k
   \<and> maps_to \<lparr>graph_input_name = g, mapped_node_name = node, mapped_node_input_name = port,
        fan_in_index = Some k, graph_input_description = descr,
        mapping_dagster_type = t\<rparr> = FanInInputPointer node port k"
  by (simp add: mapping_to_def maps_to_def)

text \<open>
  C5 as stated fails: \<^verbatim>\<open>mapping_to("node", "port", -1)\<close> on a declaration named \<open>x\<close>
  returns a mapping whose index is present and negative.
\<close>

theorem fan_in_index_negative_accepted:
  "fan_in_index (mapping_to example_input ''node'' ''port'' (Some (- 1))) = Some (- 1)
   \<and> maps_to (mapping_to example_input ''node'' ''port'' (Some (- 1)))
       = FanInInputPointer ''node'' ''port'' (- 1)
   \<and> \<not> (0::int) \<le> - 1"
  by (simp add: mapping_to_def maps_to_def)

text \<open>
  C6. For every mapping \<open>m\<close>, \<^verbatim>\<open>m.describe()\<close> is the graph input name, \<open>" -> "\<close>,
  the mapped node name, \<open>":"\<close> and the mapped input name, followed directly by the
  decimal index when the index is present and by nothing otherwise: \<open>"x -> node:port2"\<close>
  for input \<open>x\<close> mapped to \<open>port\<close> of \<open>node\<close> at index 2, \<open>"x -> node:port"\<close> without
  an index.
\<close>

theorem describe_format:
  "describe m = graph_input_name m @ '' -> '' @ mapped_node_name m @ '':''
      @ mapped_node_input_name m
      @ (case fan_in_index m of None \<Rightarrow> [] | Some k \<Rightarrow> str_int k)
   \<and> describe (mapping_to (d\<lparr>name := ''x''\<rparr>) ''node'' ''port'' (Some 2)) = ''x -> node:port2''
   \<and> describe (mapping_to (d\<lparr>name := ''x''\<rparr>) ''node'' ''port'' None) = ''x -> node:port''"
  by (auto simp: describe_def maps_to_def mapping_to_def str_int_def digit_char_def Let_def
      split: option.splits)

subsection \<open>Defaults on the Nothing type\<close>

text \<open>
  C7. When the name is accepted and the type specifier resolves to a descriptor of the
  Nothing type, constructing an \<^verbatim>\<open>InputDefinition\<close> with any default value other than
  the sentinel fails with \<^verbatim>\<open>DagsterInvalidDefinitionError\<close>, whatever the other
  arguments are; with the sentinel the default check passes, and the construction succeeds
  when the later checks (manager keys, asset partitions) pass.
\<close>

theorem nothing_type_default:
  assumes "valid_name E n" and "resolve_dagster_type E ty = Inr t" and "is_nothing t"
  shows "InputDefinition_init E n ty descr (Value v) rk md ak ap ik =
           Inl (DagsterInvalidDefinitionError
             ''Setting a default_value is invalid on InputDefinitions of type Nothing'')
    \<and> check_default_value E n t (Value v) =
           Inl (DagsterInvalidDefinitionError
             ''Setting a default_value is invalid on InputDefinitions of type Nothing'')
    \<and> check_default_value E n t NoValueSentinel = Inr NoValueSentinel
    \<and> (\<not> (truthy_str rk \<and> truthy_str ik) \<longrightarrow> \<not> (truthy_partitions ap \<and> ak = None) \<longrightarrow>
         (\<exists>d. InputDefinition_init E n ty descr NoValueSentinel rk md ak ap ik = Inr d
              \<and> dagster_type d = t \<and> default_value d = NoValueSentinel))"
  using assms
  by (simp add: InputDefinition_init_def check_valid_name_def check_default_value_def)

theorem nothing_type_default_witness:
  "InputDefinition_init example_externals ''data'' (Native 0) None (Value 0) None None
       (None :: unit asset_key_arg option) None None =
     Inl (DagsterInvalidDefinitionError
       ''Setting a default_value is invalid on InputDefinitions of type Nothing'')
   \<and> (\<exists>d. InputDefinition_init example_externals ''data'' (Native 0) None NoValueSentinel
          None None (None :: unit asset_key_arg option) None None = Inr d
        \<and> dagster_type d = example_nothing \<and> default_value d = NoValueSentinel)"
proof -
  have v: "valid_name example_externals ''data''"
    by (simp add: example_externals_def)
  have r: "resolve_dagster_type example_externals (Native 0) = Inr example_nothing"
    by (simp add: resolve_dagster_type_def example_externals_def)
  have n: "is_nothing example_nothing"
    by (simp add: example_nothing_def)
  show ?thesis
    using nothing_type_default [OF v r n, of None 0 None None
        "None :: unit asset_key_arg option" None None]
    by simp
qed

subsection \<open>Asset partitions need an asset key\<close>

text \<open>
  C8, as the code has it. For every non-empty fixed set of partitions supplied as
  \<^verbatim>\<open>asset_partitions\<close> with no \<^verbatim>\<open>asset_key\<close>, the construction fails; when the earlier
  checks pass (name, type, default value, manager keys) it fails in
  \<^verbatim>\<open>check.param_invariant\<close>, that is with a \<^verbatim>\<open>CheckError\<close>, which is not a
  \<^verbatim>\<open>DagsterInvalidDefinitionError\<close>.
\<close>

theorem asset_partitions_without_asset_key:
  assumes "s \<noteq> {}"
  shows "(\<exists>e. InputDefinition_init E n ty descr dv rk md None (Some (PartitionSet s)) ik = Inl e)
    \<and> (valid_name E n \<longrightarrow> resolve_dagster_type E ty = Inr t \<longrightarrow>
         check_default_value E n t dv = Inr dv \<longrightarrow> \<not> (truthy_str rk \<and> truthy_str ik) \<longrightarrow>
         InputDefinition_init E n ty descr dv rk md None (Some (PartitionSet s)) ik
           = Inl (CheckError asset_partitions_message))"
  using assms
  by (auto simp: InputDefinition_init_def check_valid_name_def split: sum.splits)

theorem asset_partitions_without_asset_key_witness:
  "{''p1'', ''p2''} \<noteq> ({} :: string set)
   \<and> InputDefinition_init example_externals ''x'' PyNone None NoValueSentinel None None
      (None :: unit asset_key_arg option) (Some (PartitionSet {''p1'', ''p2''})) None
     = Inl (CheckError asset_partitions_message)"
proof -
  have s: "{''p1'', ''p2''} \<noteq> ({} :: string set)" by simp
  have v: "valid_name example_externals ''x''"
    by (simp add: example_externals_def)
  have r: "resolve_dagster_type example_externals PyNone = Inr Any"
    by (simp add: resolve_dagster_type_def)
  have c: "check_default_value example_externals ''x'' Any NoValueSentinel
      = Inr NoValueSentinel"
    by (simp add: check_default_value_def)
  have "InputDefinition_init example_externals ''x'' PyNone None NoValueSentinel None None
      (None :: unit asset_key_arg option) (Some (PartitionSet {''p1'', ''p2''})) None
     = Inl (CheckError asset_partitions_message)"
    using v r c by (simp add: asset_partitions_without_asset_key [OF s])
  with s show ?thesis by simp
qed

text \<open>
  C8 as stated fails on the kind of the error: with partitions \<open>{"p1", "p2"}\<close> and no
  asset key the construction raises a \<^verbatim>\<open>CheckError\<close>, not a
  \<^verbatim>\<open>DagsterInvalidDefinitionError\<close>.
\<close>

theorem asset_partitions_error_kind:
  "InputDefinition_init example_externals ''x'' PyNone None NoValueSentinel None None
      (None :: unit asset_key_arg option) (Some (PartitionSet {''p1'', ''p2''})) None
     = Inl (CheckError asset_partitions_message)
   \<and> \<not> raises_DagsterInvalidDefinitionError
       (InputDefinition_init example_externals ''x'' PyNone None NoValueSentinel None None
      (None :: unit asset_key_arg option) (Some (PartitionSet {''p1'', ''p2''})) None)"
  by (simp add: InputDefinition_init_def check_valid_name_def resolve_dagster_type_def
      check_default_value_def example_externals_def)

text \<open>
  C10. When the construction with neither asset key nor asset partitions succeeds, the
  same construction with the empty fixed set as \<^verbatim>\<open>asset_partitions\<close> and no asset key
  succeeds as well, and \<^verbatim>\<open>get_asset_partitions\<close> of the result is the empty set in every
  context, where the declaration without partitions gives \<^verbatim>\<open>None\<close>.
\<close>

theorem empty_asset_partitions_accepted:
  assumes "InputDefinition_init E n ty descr dv rk md None None ik = Inr d"
  shows "InputDefinition_init E n ty descr dv rk md None (Some (PartitionSet {})) ik
           = Inr (d\<lparr>asset_partitions_fn := Some (\<lambda>_. {})\<rparr>)
    \<and> (\<forall>ctx. get_asset_partitions (d\<lparr>asset_partitions_fn := Some (\<lambda>_. {})\<rparr>) ctx = Some {})
    \<and> (\<forall>ctx. get_asset_partitions d ctx = None)"
  using assms
  by (auto simp: InputDefinition_init_def get_asset_partitions_def split: sum.splits if_splits)

theorem empty_asset_partitions_accepted_witness:
  "InputDefinition_init example_externals ''x'' PyNone None NoValueSentinel None None None
     None None = Inr example_input
   \<and> InputDefinition_init example_externals ''x'' PyNone None NoValueSentinel None None None
       (Some (PartitionSet {})) None
       = Inr (example_input\<lparr>asset_partitions_fn := Some (\<lambda>_. {})\<rparr>)
   \<and> get_asset_partitions (example_input\<lparr>asset_partitions_fn := Some (\<lambda>_. {})\<rparr>) ()
       = Some {}"
  using example_input_constructed empty_asset_partitions_accepted [OF example_input_constructed]
  by simp

subsection \<open>From a declaration to a template and back\<close>

text \<open>\<^verbatim>\<open>In.from_definition\<close> refuses a declaration whose asset key is such a callable.\<close>

lemma from_definition_KeyCallable:
  assumes "asset_key d = Some (KeyCallable f)"
    and "\<not> (truthy_str (root_manager_key d) \<and> truthy_str (input_manager_key d))"
  shows "from_definition E d = Inl (CheckError ''asset_key'')"
  using assms by (simp add: from_definition_def In_new_def resolve_Descriptor)

text \<open>
  C3, as the code has it. For every validly constructed declaration \<open>d\<close> whose asset
  key is absent, an \<^verbatim>\<open>AssetKey\<close> or a plain function, and which has an asset key when
  it has asset partitions, \<^verbatim>\<open>In.from_definition(d).to_definition(d.name)\<close> succeeds and
  yields \<open>d\<close> with the type recorded as explicit: name, descriptor, description,
  default value, manager keys, metadata, asset key and asset partitions are those of
  \<open>d\<close>.
\<close>

theorem round_trip_preserves:
  assumes "InputDefinition_init E n ty descr dv rk md ak ap ik = Inr d"
    and "is_AssetKey_or_FunctionType (asset_key d)"
    and "asset_partitions_fn d = None \<or> asset_key d \<noteq> None"
  shows "\<exists>t d'. from_definition E d = Inr t \<and> to_definition E t (name d) = Inr d'
    \<and> d' = d\<lparr>type_not_set := False\<rparr>
    \<and> name d' = name d \<and> dagster_type d' = dagster_type d
    \<and> description d' = description d
    \<and> default_value d' = default_value d \<and> has_default_value d' = has_default_value d
    \<and> root_manager_key d' = root_manager_key d
    \<and> input_manager_key d' = input_manager_key d
    \<and> metadata d' = metadata d
    \<and> asset_key d' = asset_key d
    \<and> asset_partitions_fn d' = asset_partitions_fn d"
proof -
  from InputDefinition_init_Inr[OF assms(1)] obtain t where
    v: "valid_name E n" and
    c: "check_default_value E n t dv = Inr dv" and
    d: "d = \<lparr>name = n, type_not_set = is_PyNone ty, dagster_type = t,
            description = descr, default_value = dv, input_manager_key = ik,
            root_manager_key = rk, metadata = opt_dict_param md,
            metadata_entries = normalize_metadata E (opt_dict_param md),
            asset_key = ak, asset_partitions_fn = normalize_asset_partitions ap\<rparr>" and
    k: "\<not> (truthy_str rk \<and> truthy_str ik)"
    by blast
  let ?t = "\<lparr>in_dagster_type = Value t, in_description = descr, in_default_value = dv,
      in_root_manager_key = rk, in_metadata = opt_dict_param md, in_asset_key = ak,
      in_asset_partitions = map_option PartitionsFn (normalize_asset_partitions ap),
      in_input_manager_key = ik\<rparr>"
  have f: "from_definition E d = Inr ?t"
    using k assms(2) by (simp add: d from_definition_def In_new_def resolve_Descriptor)
  have p: "\<not> (truthy_partitions (map_option PartitionsFn (normalize_asset_partitions ap))
              \<and> ak = None)"
    using assms(3) by (auto simp: d)
  have "to_definition E ?t n = Inr (d\<lparr>type_not_set := False\<rparr>)"
    unfolding to_definition_def
    using InputDefinition_init_success[OF v resolve_Descriptor c k p,
        where descr = descr and md = "Some (opt_dict_param md)"]
    by (simp add: d normalize_PartitionsFn)
  with f show ?thesis by (simp add: d has_default_value_def)
qed

theorem round_trip_preserves_witness:
  "InputDefinition_init example_externals ''x'' PyNone (Some ''doc'') (Value 3) None None
     (Some (Key (AssetKey [''a'']))) (Some (PartitionSet {''p1''})) (Some ''io'')
     = Inr example_asset_input
   \<and> is_AssetKey_or_FunctionType (asset_key example_asset_input)
   \<and> asset_key example_asset_input \<noteq> None
   \<and> (\<exists>t. from_definition example_externals example_asset_input = Inr t
        \<and> to_definition example_externals t ''x''
            = Inr (example_asset_input\<lparr>type_not_set := False\<rparr>))"
proof -
  have a: "is_AssetKey_or_FunctionType (asset_key example_asset_input)"
    by (simp add: example_asset_input_def)
  have b: "asset_key example_asset_input \<noteq> None"
    by (simp add: example_asset_input_def)
  then have c: "asset_partitions_fn example_asset_input = None
      \<or> asset_key example_asset_input \<noteq> None" by simp
  have n: "name example_asset_input = ''x''"
    by (simp add: example_asset_input_def)
  show ?thesis
    using round_trip_preserves [OF example_asset_input_constructed a c]
      example_asset_input_constructed a b n
    by auto
qed

text \<open>
  C3 as stated fails at two validly constructed declarations. The one built with the
  empty partition set and no asset key converts to a template, and
  \<^verbatim>\<open>to_definition("x")\<close> of that template raises a \<^verbatim>\<open>CheckError\<close>: the stored
  partitions are now a function, which is true in a condition, so the asset key is asked
  for. The one whose asset key is a callable object is refused by \<^verbatim>\<open>In\<close> itself.
\<close>

theorem round_trip_fails:
  "InputDefinition_init example_externals ''x'' PyNone None NoValueSentinel None None None
     (Some (PartitionSet {})) None = Inr example_empty_partitions
   \<and> from_definition example_externals example_empty_partitions = Inr example_template
   \<and> to_definition example_externals example_template ''x''
       = Inl (CheckError asset_partitions_message)
   \<and> InputDefinition_init example_externals ''x'' PyNone None NoValueSentinel None None
       (Some (KeyCallable (\<lambda>_. AssetKey [''a'']))) None None = Inr example_callable_key
   \<and> from_definition example_externals example_callable_key = Inl (CheckError ''asset_key'')"
  by (simp add: InputDefinition_init_def check_valid_name_def resolve_dagster_type_def
      check_default_value_def example_externals_def example_input_def
      example_empty_partitions_def example_callable_key_def example_template_def
      from_definition_def to_definition_def In_new_def)

subsection \<open>Resolving an inferred annotation\<close>

text \<open>
  C9. Resolving the type of inferred properties \<open>i\<close> distinguishes three cases: with no
  annotation the result is the resolution of \<^verbatim>\<open>None\<close>, the descriptor \<open>Any\<close>; with
  the annotation \<^verbatim>\<open>None\<close> it is what the resolver gives for \<^verbatim>\<open>type(None)\<close>; any other
  annotation is resolved as it is. When that resolution raises a \<^verbatim>\<open>DagsterError\<close>, a
  \<^verbatim>\<open>DagsterInvalidDefinitionError\<close> is raised instead, and its message contains the name
  of \<open>i\<close> and the text of the annotation.
\<close>

theorem checked_inferred_type_cases:
  "(annotation i = ParameterEmpty \<longrightarrow>
        checked_inferred_type E i = resolve_dagster_type E PyNone
        \<and> checked_inferred_type E i = Inr Any)
   \<and> (annotation i = Annotated PyNone \<longrightarrow>
        (\<forall>t. resolve_dagster_type E NoneType = Inr t \<longrightarrow> checked_inferred_type E i = Inr t))
   \<and> (annotation i = Annotated a \<longrightarrow> a \<noteq> PyNone \<longrightarrow>
        (\<forall>t. resolve_dagster_type E a = Inr t \<longrightarrow> checked_inferred_type E i = Inr t)
        \<and> (\<forall>e. resolve_dagster_type E a = Inl e \<longrightarrow> is_DagsterError e \<longrightarrow>
              checked_inferred_type E i
                = Inl (DagsterInvalidDefinitionError (inferred_type_message E i))))
   \<and> sublist (inferred_name i) (inferred_type_message E i)
   \<and> sublist (str_annotation E (annotation i)) (inferred_type_message E i)"
proof -
  have 1: "annotation i = ParameterEmpty \<longrightarrow>
        checked_inferred_type E i = resolve_dagster_type E PyNone
        \<and> checked_inferred_type E i = Inr Any"
    by (simp add: checked_inferred_type_def resolve_dagster_type_def)
  have 2: "annotation i = Annotated PyNone \<longrightarrow>
        (\<forall>t. resolve_dagster_type E NoneType = Inr t \<longrightarrow> checked_inferred_type E i = Inr t)"
    by (simp add: checked_inferred_type_def)
  have s: "a \<noteq> PyNone \<Longrightarrow> inferred_specifier (Annotated a) = a"
    by (cases a) auto
  have 3: "annotation i = Annotated a \<longrightarrow> a \<noteq> PyNone \<longrightarrow>
        (\<forall>t. resolve_dagster_type E a = Inr t \<longrightarrow> checked_inferred_type E i = Inr t)
        \<and> (\<forall>e. resolve_dagster_type E a = Inl e \<longrightarrow> is_DagsterError e \<longrightarrow>
              checked_inferred_type E i
                = Inl (DagsterInvalidDefinitionError (inferred_type_message E i)))"
    using s by (simp add: checked_inferred_type_def)
  have 4: "sublist (inferred_name i) (inferred_type_message E i)"
    unfolding inferred_type_message_def sublist_def by (metis append.assoc)
  have 5: "sublist (str_annotation E (annotation i)) (inferred_type_message E i)"
    unfolding inferred_type_message_def sublist_def by (metis append.assoc)
  from 1 2 3 4 5 show ?thesis by blast
qed

theorem checked_inferred_type_cases_witness:
  "checked_inferred_type example_externals example_unknown_annotation
     = Inl (DagsterInvalidDefinitionError
         (''Problem using type '' @ [CHR 0x27] @ ''T'' @ [CHR 0x27]
           @ '' from type annotation for argument '' @ [CHR 0x27] @ ''x'' @ [CHR 0x27]
           @ '', correct the issue or explicitly set the dagster_type via In().''))
   \<and> checked_inferred_type example_externals example_inferred = Inr example_nothing
   \<and> checked_inferred_type example_externals
        (example_inferred\<lparr>annotation := ParameterEmpty\<rparr>) = Inr Any"
proof -
  have a: "annotation example_unknown_annotation = Annotated (Native 7)"
    by (simp add: example_unknown_annotation_def)
  have r: "resolve_dagster_type example_externals (Native 7)
      = Inl (DagsterError ''unknown type'')"
    by (simp add: resolve_dagster_type_def example_externals_def)
  have m: "inferred_type_message example_externals example_unknown_annotation =
      ''Problem using type '' @ [CHR 0x27] @ ''T'' @ [CHR 0x27]
           @ '' from type annotation for argument '' @ [CHR 0x27] @ ''x'' @ [CHR 0x27]
           @ '', correct the issue or explicitly set the dagster_type via In().''"
    by (simp add: inferred_type_message_def example_externals_def
        example_unknown_annotation_def)
  have b: "annotation example_inferred = Annotated PyNone"
    by (simp add: example_inferred_def)
  have n: "resolve_dagster_type example_externals NoneType = Inr example_nothing"
    by (simp add: resolve_dagster_type_def example_externals_def)
  have c: "annotation (example_inferred\<lparr>annotation := ParameterEmpty\<rparr>) = ParameterEmpty"
    by simp
  show ?thesis
    using checked_inferred_type_cases [of example_unknown_annotation example_externals "Native 7"]
      checked_inferred_type_cases [of example_inferred example_externals PyNone]
      checked_inferred_type_cases [of "example_inferred\<lparr>annotation := ParameterEmpty\<rparr>"
        example_externals PyNone]
      a r m b n c
    by (simp add: resolve_dagster_type_def)
qed

end
